theory Spec2Isabelle
  imports Main
begin

section \<open>Python values\<close>

text \<open>
  A Python \<open>str\<close> is a sequence of Unicode code points. Isabelle's \<open>char\<close> has eight
  bits and the shop's texts are Russian, so a string is modelled as the list of its code
  points. \<open>asc\<close> embeds an ASCII literal.
\<close>

type_synonym pystr = "nat list"

definition asc :: "string \<Rightarrow> pystr" where
  "asc s = map of_char s"

section \<open>chat\_context.py: the dialog session\<close>

text \<open>The enum \<open>DialogState\<close>, one constructor per member, in the order of the source.\<close>

datatype DialogState =
    START
  | ASK_SIZE
  | ASK_LOCATION
  | PLANT_SEARCH
  | OUT_OF_STOCK
  | ORDERING
  | CART_MANAGEMENT
  | CART_CHECKOUT
  | UPSELL
  | COMPLETED
  | MANAGER_CALLED

text \<open>
  A catalog entry is a \<open>dict\<close>, a row of the spreadsheet as pandas' \<open>row.to_dict()\<close>
  gives it. The session code reads it only through \<open>.get("Nazvanie")\<close> (the display
  name, written in Cyrillic in the source). The value it gets is \<open>None\<close> when the key is
  missing, a string, the float NaN that pandas puts in an empty cell, or another cell
  value (a number, a date); \<open>PyOther k\<close> stands for the latter, two of them being \<open>==\<close>
  exactly when their indices agree.
\<close>

datatype pyvalue = PyNone | PyStr pystr | PyNaN | PyOther nat

text \<open>Python's \<open>==\<close> on such values: NaN is equal to nothing, not even to itself.\<close>

definition py_eq :: "pyvalue \<Rightarrow> pyvalue \<Rightarrow> bool" where
  "py_eq a b = (a = b \<and> a \<noteq> PyNaN)"

record plant =
  plant_name :: pyvalue
  plant_fields :: "(pystr \<times> pystr) list"

text \<open>A cart row \<open>{"plant": ..., "quantity": ..., "type": ...}\<close>; Python's \<open>int\<close> is unbounded.\<close>

record cart_item =
  item_plant :: plant
  quantity :: int
  item_type :: pystr

text \<open>
  A history entry \<open>{"role": ..., "content": ...}\<close>. \<open>content = None\<close> stands for a
  \<open>content\<close> that is \<open>None\<close> or was deleted from the dict.
\<close>

record message =
  role :: pystr
  content :: "pystr option"

text \<open>
  The attributes of \<open>ChatContext\<close>. \<open>created_at\<close> is the naive local \<open>datetime\<close> of
  creation, counted in microseconds. \<open>subject\<close> is the attribute the escalation code
  adds to the object (\<open>None\<close> while it has not been set).
\<close>

record ChatContext =
  chat_id :: int
  dialog_id :: "int option"
  created_at :: int
  messages :: "message list"
  state :: DialogState
  desired_size :: "pystr option"
  desired_location :: "pystr option"
  selected_plants :: "plant list option"
  cart :: "cart_item list"
  order_details :: "pystr option"
  potential_groups :: "pystr option"
  channel_info :: "(int \<times> pystr) option"
  user_info :: "(int \<times> pystr) option"
  out_of_stock_plant :: "plant option"
  out_of_stock_plants :: "plant list option"
  preorder_info :: "pystr option"
  last_search_query :: "pystr option"
  subject :: "pystr option"

text \<open>\<open>ChatContext.__init__\<close>; the second argument is \<open>datetime.now()\<close>.\<close>

definition new_ChatContext :: "int \<Rightarrow> int \<Rightarrow> ChatContext" where
  "new_ChatContext cid now =
     \<lparr> chat_id = cid, dialog_id = None, created_at = now, messages = [], state = START,
       desired_size = None, desired_location = None, selected_plants = None, cart = [],
       order_details = None, potential_groups = None, channel_info = None,
       user_info = None, out_of_stock_plant = None, out_of_stock_plants = None,
       preorder_info = None, last_search_query = None, subject = None \<rparr>"

text \<open>\<open>is_expired\<close>: \<open>datetime.now() > created_at + timedelta(days=days)\<close>.\<close>

definition microseconds_per_day :: int where
  "microseconds_per_day = 86400000000"

definition is_expired :: "ChatContext \<Rightarrow> int \<Rightarrow> int \<Rightarrow> bool" where
  "is_expired ctx now days = (now > created_at ctx + days * microseconds_per_day)"

text \<open>
  \<open>add_message(role, text)\<close> as the agent calls it (no tool call arguments): a tool
  message without text gets the empty string, any other message keeps its text.
\<close>

definition add_message :: "ChatContext \<Rightarrow> pystr \<Rightarrow> pystr option \<Rightarrow> ChatContext" where
  "add_message ctx r txt =
     ctx\<lparr>messages := messages ctx @
       [\<lparr>role = r, content = (if r = asc ''tool'' \<and> txt = None then Some [] else txt)\<rparr>]\<rparr>"

definition reset_out_of_stock_state :: "ChatContext \<Rightarrow> ChatContext" where
  "reset_out_of_stock_state ctx =
     ctx\<lparr>out_of_stock_plant := None, out_of_stock_plants := None, preorder_info := None\<rparr>"

definition reset_preferences :: "ChatContext \<Rightarrow> ChatContext" where
  "reset_preferences ctx = ctx\<lparr>desired_size := None, desired_location := None\<rparr>"

definition clear_cart :: "ChatContext \<Rightarrow> ChatContext" where
  "clear_cart ctx = ctx\<lparr>cart := []\<rparr>"

text \<open>
  \<open>change_state\<close>: the three guarded resets run in the order of the source, each reading
  \<open>self.state\<close> before the assignment of the last line.
\<close>

definition change_state :: "ChatContext \<Rightarrow> DialogState \<Rightarrow> ChatContext" where
  "change_state ctx new_state =
     (let c1 = (if state ctx = OUT_OF_STOCK \<and> new_state \<noteq> OUT_OF_STOCK
                then reset_out_of_stock_state ctx else ctx);
          c2 = (if new_state = COMPLETED then clear_cart c1 else c1);
          c3 = (if new_state \<in> set [START, PLANT_SEARCH] \<and>
                   state c2 \<notin> set [START, PLANT_SEARCH, CART_MANAGEMENT]
                then reset_preferences c2 else c2)
      in c3\<lparr>state := new_state\<rparr>)"

text \<open>
  \<open>add_to_cart\<close>: the loop over the rows stops at the first row whose plant's name is
  \<open>==\<close> to the new plant's name and adds the quantity there; when no row matches, a new
  row is appended.
\<close>

definition same_item :: "plant \<Rightarrow> cart_item \<Rightarrow> bool" where
  "same_item plant_data item = py_eq (plant_name (item_plant item)) (plant_name plant_data)"

fun add_to_cart_rows :: "cart_item list \<Rightarrow> plant \<Rightarrow> int \<Rightarrow> pystr \<Rightarrow> cart_item list" where
  "add_to_cart_rows [] plant_data q ty =
     [\<lparr>item_plant = plant_data, quantity = q, item_type = ty\<rparr>]"
| "add_to_cart_rows (item # rest) plant_data q ty =
     (if same_item plant_data item
      then item\<lparr>quantity := quantity item + q\<rparr> # rest
      else item # add_to_cart_rows rest plant_data q ty)"

definition add_to_cart :: "ChatContext \<Rightarrow> plant \<Rightarrow> int \<Rightarrow> pystr \<Rightarrow> ChatContext" where
  "add_to_cart ctx plant_data q ty = ctx\<lparr>cart := add_to_cart_rows (cart ctx) plant_data q ty\<rparr>"

text \<open>The quantity a cart holds for a plant: that of its first row with the name, else 0.\<close>

definition cart_quantity :: "cart_item list \<Rightarrow> plant \<Rightarrow> int" where
  "cart_quantity rows plant_data =
     (case filter (same_item plant_data) rows of [] \<Rightarrow> 0 | e # es \<Rightarrow> quantity e)"

section \<open>main.py: the per-chat debounce queue\<close>



text \<open>
  The two module-level registries: \<open>user_messages\<close> maps a chat to its pending list of
  pairs \<open>(text, image_url)\<close>, \<open>user_timers\<close> holds the chats whose timer task exists.
\<close>

type_synonym pending = "pystr option \<times> pystr option"

record queue_state =
  user_messages :: "int \<rightharpoonup> pending list"
  user_timers :: "int set"




text \<open>Python's truth value of an optional string: \<open>None\<close> and \<open>""\<close> are false.\<close>

definition truthy :: "pystr option \<Rightarrow> bool" where
  "truthy v = (case v of None \<Rightarrow> False | Some s \<Rightarrow> s \<noteq> [])"



text \<open>The split of the pending pairs into image urls and texts (the \<open>if/elif\<close> of the loop).\<close>

fun image_messages :: "pending list \<Rightarrow> pystr list" where
  "image_messages [] = []"
| "image_messages ((t, u) # ms) =
     (case u of Some url \<Rightarrow> (if url \<noteq> [] then url # image_messages ms else image_messages ms)
      | None \<Rightarrow> image_messages ms)"

fun text_messages :: "pending list \<Rightarrow> pystr list" where
  "text_messages [] = []"
| "text_messages ((t, u) # ms) =
     (if truthy u then text_messages ms
      else case t of Some txt \<Rightarrow> (if txt \<noteq> [] then txt # text_messages ms else text_messages ms)
           | None \<Rightarrow> text_messages ms)"


text \<open>
  The second step is the \<open>finally\<close> clause, which removes the chat's timer. It runs when
  the awaited calls have returned; while they run the loop of \<open>process_messages\<close> goes
  on taking items from the queue, so steps of it may come between the two.
\<close>

definition process_user_messages_finally :: "queue_state \<Rightarrow> int \<Rightarrow> queue_state" where
  "process_user_messages_finally q cid = q\<lparr>user_timers := user_timers q - {cid}\<rparr>"




section \<open>bot\_agent.py and main.py: the fixed texts\<close>

text \<open>
  The string literals of the source, as code points (most are Russian and carry emoji).
  \<open>reply_c\<close> is \<open>CATEGORY_REPLIES[c]\<close>, the canned reply of category \<open>c\<close>;
  \<open>prefix_c\<close> is \<open>DETAILS_PREFIX[c]\<close>, the subject line of the notification.
  Both tables have the same seven keys; \<open>delivery\<close> is commented out in both, and
  \<open>pot_request\<close> is in neither.
\<close>

definition reply_live_photo :: pystr where
  "reply_live_photo =
     [1057, 1077, 1081, 1095, 1072, 1089, 32, 1103, 32, 1089, 1087, 1088, 1086, 1096,
      1091, 32, 1091, 32, 1082, 1086, 1083, 1083, 1077, 1075, 1080, 44, 32, 1095, 1090,
      1086, 1073, 1099, 32, 1086, 1085, 32, 1089, 1076, 1077, 1083, 1072, 1083, 32,
      1076, 1083, 1103, 32, 1074, 1072, 1089, 32, 1089, 1074, 1077, 1078, 1077, 1085,
      1100, 1082, 1086, 1077, 32, 1092, 1086, 1090, 1086, 32, 1088, 1072, 1089, 1090,
      1077, 1085, 1080, 1103, 32, 128248, 32, 1053, 1077, 1084, 1085, 1086, 1075, 1086,
      32, 1087, 1086, 1076, 1086, 1078, 1076, 1080, 1090, 1077, 44, 32, 1093, 1086,
      1088, 1086, 1096, 1086, 63]"

definition reply_multiple_plants :: pystr where
  "reply_multiple_plants =
     [1044, 1083, 1103, 32, 1074, 1072, 1096, 1077, 1075, 1086, 32, 1073, 1086, 1083,
      1100, 1096, 1086, 1075, 1086, 32, 1079, 1072, 1082, 1072, 1079, 1072, 32, 1103,
      32, 1091, 1078, 1077, 32, 1079, 1086, 1074, 1091, 32, 1085, 1072, 1096, 1077,
      1075, 1086, 32, 1084, 1077, 1085, 1077, 1076, 1078, 1077, 1088, 1072, 32, 129303,
      32, 1055, 1086, 1078, 1072, 1083, 1091, 1081, 1089, 1090, 1072, 44, 32, 1087,
      1086, 1076, 1086, 1078, 1076, 1080, 1090, 1077, 32, 1085, 1077, 1084, 1085, 1086,
      1075, 1086, 33]"

definition reply_order_question :: pystr where
  "reply_order_question =
     [1057, 1077, 1081, 1095, 1072, 1089, 32, 1091, 1090, 1086, 1095, 1085, 1102, 32,
      1076, 1077, 1090, 1072, 1083, 1080, 32, 1074, 1072, 1096, 1077, 1075, 1086, 32,
      1079, 1072, 1082, 1072, 1079, 1072, 32, 1080, 32, 1089, 1082, 1086, 1088, 1086,
      32, 1074, 1077, 1088, 1085, 1091, 1089, 1100, 32, 1089, 32, 1086, 1090, 1074,
      1077, 1090, 1086, 1084, 32, 128230]"

definition reply_call_request :: pystr where
  "reply_call_request =
     [1055, 1086, 1085, 1103, 1083, 44, 32, 1089, 1077, 1081, 1095, 1072, 1089, 32,
      1087, 1086, 1087, 1088, 1086, 1096, 1091, 32, 1084, 1077, 1085, 1077, 1076, 1078,
      1077, 1088, 1072, 32, 1089, 1074, 1103, 1079, 1072, 1090, 1100, 1089, 1103, 32,
      1089, 32, 1074, 1072, 1084, 1080, 32, 1087, 1086, 32, 1090, 1077, 1083, 1077,
      1092, 1086, 1085, 1091, 32, 128222]"

definition reply_reclamation :: pystr where
  "reply_reclamation =
     [1071, 32, 1087, 1077, 1088, 1077, 1076, 1072, 1084, 32, 1074, 1072, 1096, 32,
      1074, 1086, 1087, 1088, 1086, 1089, 32, 1085, 1072, 1096, 1077, 1084, 1091, 32,
      1084, 1077, 1085, 1077, 1076, 1078, 1077, 1088, 1091, 32, 1087, 1086, 32, 1088,
      1077, 1082, 1083, 1072, 1084, 1072, 1094, 1080, 1103, 1084, 32, 128591, 32, 1055,
      1086, 1076, 1086, 1078, 1076, 1080, 1090, 1077, 44, 32, 1087, 1086, 1078, 1072,
      1083, 1091, 1081, 1089, 1090, 1072, 46]"

definition reply_ask_human :: pystr where
  "reply_ask_human =
     [1050, 1086, 1085, 1077, 1095, 1085, 1086, 44, 32, 1103, 32, 1087, 1086, 1079,
      1086, 1074, 1091, 32, 1084, 1077, 1085, 1077, 1076, 1078, 1077, 1088, 1072, 44,
      32, 1082, 1086, 1090, 1086, 1088, 1099, 1081, 32, 1087, 1086, 1084, 1086, 1078,
      1077, 1090, 32, 1083, 1080, 1095, 1085, 1086, 32, 129309, 32, 1055, 1086, 1076,
      1086, 1078, 1076, 1080, 1090, 1077, 32, 1095, 1091, 1090, 1100, 45, 1095, 1091,
      1090, 1100, 33]"

definition reply_office_plant :: pystr where
  "reply_office_plant =
     [1047, 1086, 1074, 1091, 32, 1085, 1072, 1096, 1077, 1075, 1086, 32, 1101, 1082,
      1089, 1087, 1077, 1088, 1090, 1072, 32, 1087, 1086, 32, 1086, 1079, 1077, 1083,
      1077, 1085, 1077, 1085, 1080, 1102, 32, 1086, 1092, 1080, 1089, 1086, 1074, 32,
      127807, 32, 1054, 1085, 32, 1089, 1082, 1086, 1088, 1086, 32, 1089, 1074, 1103,
      1078, 1077, 1090, 1089, 1103, 32, 1089, 32, 1074, 1072, 1084, 1080, 46]"

definition CATEGORY_REPLIES :: "(pystr \<times> pystr) list" where
  "CATEGORY_REPLIES =
     [(asc ''live_photo'', reply_live_photo),
      (asc ''multiple_plants'', reply_multiple_plants),
      (asc ''order_question'', reply_order_question),
      (asc ''call_request'', reply_call_request),
      (asc ''reclamation'', reply_reclamation),
      (asc ''ask_human'', reply_ask_human),
      (asc ''office_plant'', reply_office_plant)]"

definition prefix_live_photo :: pystr where
  "prefix_live_photo =
     [1055, 1086, 1083, 1100, 1079, 1086, 1074, 1072, 1090, 1077, 1083, 1100, 32, 1079,
      1072, 1087, 1088, 1072, 1096, 1080, 1074, 1072, 1077, 1090, 32, 1078, 1080, 1074,
      1086, 1077, 32, 1092, 1086, 1090, 1086, 32, 1088, 1072, 1089, 1090, 1077, 1085,
      1080, 1103]"

definition prefix_multiple_plants :: pystr where
  "prefix_multiple_plants =
     [1055, 1086, 1083, 1100, 1079, 1086, 1074, 1072, 1090, 1077, 1083, 1100, 32, 1089,
      1087, 1088, 1072, 1096, 1080, 1074, 1072, 1077, 1090, 32, 1087, 1088, 1086, 32,
      1079, 1072, 1082, 1072, 1079, 32, 1085, 1077, 1089, 1082, 1086, 1083, 1100, 1082,
      1080, 1093, 32, 1088, 1072, 1089, 1090, 1077, 1085, 1080, 1081]"

definition prefix_order_question :: pystr where
  "prefix_order_question =
     [1042, 1086, 1087, 1088, 1086, 1089, 32, 1087, 1086, 32, 1090, 1077, 1082, 1091,
      1097, 1077, 1084, 1091, 32, 1079, 1072, 1082, 1072, 1079, 1091]"

definition prefix_call_request :: pystr where
  "prefix_call_request =
     [1055, 1086, 1083, 1100, 1079, 1086, 1074, 1072, 1090, 1077, 1083, 1100, 32, 1087,
      1088, 1086, 1089, 1080, 1090, 32, 1087, 1086, 1079, 1074, 1086, 1085, 1080, 1090,
      1100]"

definition prefix_reclamation :: pystr where
  "prefix_reclamation =
     [1056, 1077, 1082, 1083, 1072, 1084, 1072, 1094, 1080, 1103]"

definition prefix_ask_human :: pystr where
  "prefix_ask_human =
     [1055, 1086, 1083, 1100, 1079, 1086, 1074, 1072, 1090, 1077, 1083, 1100, 32, 1087,
      1088, 1086, 1089, 1080, 1090, 32, 1089, 1074, 1103, 1079, 1072, 1090, 1100, 32,
      1089, 32, 1084, 1077, 1085, 1077, 1076, 1078, 1077, 1088, 1086, 1084]"

definition prefix_office_plant :: pystr where
  "prefix_office_plant =
     [1055, 1086, 1083, 1100, 1079, 1086, 1074, 1072, 1090, 1077, 1083, 1100, 32, 1080,
      1085, 1090, 1077, 1088, 1077, 1089, 1091, 1077, 1090, 1089, 1103, 32, 1088, 1072,
      1089, 1090, 1077, 1085, 1080, 1103, 1084, 1080, 32, 1076, 1083, 1103, 32, 1086,
      1092, 1080, 1089, 1072]"

definition DETAILS_PREFIX :: "(pystr \<times> pystr) list" where
  "DETAILS_PREFIX =
     [(asc ''live_photo'', prefix_live_photo),
      (asc ''multiple_plants'', prefix_multiple_plants),
      (asc ''order_question'', prefix_order_question),
      (asc ''call_request'', prefix_call_request),
      (asc ''reclamation'', prefix_reclamation),
      (asc ''ask_human'', prefix_ask_human),
      (asc ''office_plant'', prefix_office_plant)]"

text \<open>
  The review request another bot broadcasts ("Your order is delivered ... please rate our service on a 5 point scale ..."), the local \<open>review_request_text\<close> of \<open>classify_intent\<close>.
\<close>

definition review_request_text :: pystr where
  "review_request_text =
     [1042, 1072, 1096, 32, 1079, 1072, 1082, 1072, 1079, 32, 1076, 1086, 1089, 1090,
      1072, 1074, 1083, 1077, 1085, 32, 127969, 10, 1041, 1083, 1072, 1075, 1086, 1076,
      1072, 1088, 1080, 1084, 32, 1079, 1072, 32, 1087, 1086, 1082, 1091, 1087, 1082,
      1091, 32, 1074, 32, 84, 114, 111, 112, 105, 99, 72, 111, 117, 115, 101, 33, 32,
      127807, 10, 10, 1042, 1072, 1096, 32, 1074, 1099, 1073, 1086, 1088, 32, 8212, 32,
      1083, 1091, 1095, 1096, 1072, 1103, 32, 1085, 1072, 1075, 1088, 1072, 1076, 1072,
      32, 1076, 1083, 1103, 32, 1085, 1072, 1096, 1077, 1081, 32, 1082, 1086, 1084,
      1072, 1085, 1076, 1099, 46, 32, 1052, 1099, 32, 1087, 1086, 1089, 1090, 1086,
      1103, 1085, 1085, 1086, 32, 1089, 1086, 1074, 1077, 1088, 1096, 1077, 1085, 1089,
      1090, 1074, 1091, 1077, 1084, 32, 1089, 1077, 1088, 1074, 1080, 1089, 32, 1080,
      32, 1093, 1086, 1090, 1080, 1084, 44, 32, 1095, 1090, 1086, 1073, 1099, 32, 1074,
      1072, 1084, 32, 1073, 1099, 1083, 1086, 32, 1087, 1088, 1080, 1103, 1090, 1085,
      1086, 32, 1074, 1086, 1079, 1074, 1088, 1072, 1097, 1072, 1090, 1100, 1089, 1103,
      127796, 10, 10, 1055, 1086, 1078, 1072, 1083, 1091, 1081, 1089, 1090, 1072, 44,
      32, 1086, 1094, 1077, 1085, 1080, 1090, 1077, 32, 1085, 1072, 1096, 32, 1089,
      1077, 1088, 1074, 1080, 1089, 32, 1087, 1086, 32, 53, 45, 1073, 1072, 1083, 1083,
      1100, 1085, 1086, 1081, 32, 1096, 1082, 1072, 1083, 1077, 58, 10, 53, 32, 8212,
      32, 128525, 32, 1074, 1089, 1105, 32, 1086, 1090, 1083, 1080, 1095, 1085, 1086,
      10, 51, 32, 8212, 32, 128528, 32, 1077, 1089, 1090, 1100, 44, 32, 1095, 1090,
      1086, 32, 1091, 1083, 1091, 1095, 1096, 1080, 1090, 1100, 10, 49, 32, 8212, 32,
      128542, 32, 1086, 1089, 1090, 1072, 1083, 1080, 1089, 1100, 32, 1085, 1077, 1076,
      1086, 1074, 1086, 1083, 1100, 1085, 1099]"

text \<open>
  The after-hours reply ("Request accepted, we will contact you during working hours").
\<close>

definition after_hours_message :: pystr where
  "after_hours_message =
     [1047, 1072, 1087, 1088, 1086, 1089, 32, 1087, 1088, 1080, 1085, 1103, 1090, 44,
      32, 1089, 1074, 1103, 1078, 1077, 1084, 1089, 1103, 32, 1089, 32, 1042, 1072,
      1084, 1080, 32, 1074, 32, 1088, 1072, 1073, 1086, 1095, 1077, 1077, 32, 1074,
      1088, 1077, 1084, 1103, 32, 9200]"

text \<open>
  The pieces of the f-string of the sized pot reply ("Here are suitable pots of diameter N cm:" and the link) and the reply with the whole pot catalog.
\<close>

definition pot_response_head :: pystr where
  "pot_response_head =
     [129716, 32, 1042, 1086, 1090, 32, 1087, 1086, 1076, 1093, 1086, 1076, 1103, 1097,
      1080, 1077, 32, 1082, 1072, 1096, 1087, 1086, 32, 1076, 1080, 1072, 1084, 1077,
      1090, 1088, 1086, 1084, 32]"

definition pot_response_mid :: pystr where
  "pot_response_mid =
     [32, 1089, 1084, 58, 10]"

definition pot_catalog_response :: pystr where
  "pot_catalog_response =
     [129716, 32, 1042, 1086, 1090, 32, 1085, 1072, 1096, 32, 1082, 1072, 1090, 1072,
      1083, 1086, 1075, 32, 1082, 1072, 1096, 1087, 1086, 32, 1080, 32, 1075, 1086,
      1088, 1096, 1082, 1086, 1074, 58, 10, 104, 116, 116, 112, 115, 58, 47, 47, 116,
      114, 111, 112, 105, 99, 104, 111, 117, 115, 101, 46, 114, 117, 47, 99, 97, 116,
      97, 108, 111, 103, 47, 103, 111, 114, 115, 104, 107, 105, 95, 105, 95, 107, 97,
      115, 104, 112, 111, 47]"

text \<open>
  The text of \<open>send_accessories_message\<close>.
\<close>

definition accessories_message :: pystr where
  "accessories_message =
     [127807, 32, 1054, 1090, 1083, 1080, 1095, 1085, 1086, 33, 32, 1042, 1072, 1096,
      32, 1079, 1072, 1082, 1072, 1079, 32, 1086, 1092, 1086, 1088, 1084, 1083, 1077,
      1085, 33, 32, 10, 10, 1040, 32, 1095, 1090, 1086, 1073, 1099, 32, 1074, 1072,
      1096, 1077, 32, 1088, 1072, 1089, 1090, 1077, 1085, 1080, 1077, 32, 1095, 1091,
      1074, 1089, 1090, 1074, 1086, 1074, 1072, 1083, 1086, 32, 1089, 1077, 1073, 1103,
      32, 1084, 1072, 1082, 1089, 1080, 1084, 1072, 1083, 1100, 1085, 1086, 32, 1082,
      1086, 1084, 1092, 1086, 1088, 1090, 1085, 1086, 44, 32, 1087, 1088, 1077, 1076,
      1083, 1072, 1075, 1072, 1102, 32, 1087, 1086, 1083, 1077, 1079, 1085, 1099, 1077,
      32, 1072, 1082, 1089, 1077, 1089, 1089, 1091, 1072, 1088, 1099, 58, 10, 10,
      128703, 32, 42, 42, 1051, 1077, 1081, 1082, 1080, 32, 1080, 32, 1086, 1087, 1088,
      1099, 1089, 1082, 1080, 1074, 1072, 1090, 1077, 1083, 1080, 42, 42, 10, 104, 116,
      116, 112, 115, 58, 47, 47, 116, 114, 111, 112, 105, 99, 104, 111, 117, 115, 101,
      46, 114, 117, 47, 99, 97, 116, 97, 108, 111, 103, 47, 97, 107, 115, 101, 115, 115,
      117, 97, 114, 121, 47, 108, 101, 121, 107, 105, 95, 105, 95, 111, 112, 114, 121,
      115, 107, 105, 118, 97, 116, 101, 108, 105, 47, 10, 10, 127793, 32, 42, 42, 1059,
      1076, 1086, 1073, 1088, 1077, 1085, 1080, 1103, 42, 42, 32, 10, 104, 116, 116,
      112, 115, 58, 47, 47, 116, 114, 111, 112, 105, 99, 104, 111, 117, 115, 101, 46,
      114, 117, 47, 99, 97, 116, 97, 108, 111, 103, 47, 117, 100, 111, 98, 114, 101,
      110, 105, 121, 97, 47, 117, 100, 111, 98, 114, 101, 110, 105, 121, 97, 95, 49, 47,
      10, 10, 128161, 32, 42, 42, 1060, 1080, 1090, 1086, 1083, 1072, 1084, 1087, 1099,
      42, 42, 10, 104, 116, 116, 112, 115, 58, 47, 47, 116, 114, 111, 112, 105, 99, 104,
      111, 117, 115, 101, 46, 114, 117, 47, 99, 97, 116, 97, 108, 111, 103, 47, 97, 107,
      115, 101, 115, 115, 117, 97, 114, 121, 47, 102, 105, 116, 111, 108, 97, 109, 112,
      121, 47, 10, 10, 128295, 32, 42, 42, 1055, 1088, 1080, 1073, 1086, 1088, 1099, 32,
      1076, 1083, 1103, 32, 1091, 1093, 1086, 1076, 1072, 42, 42, 10, 104, 116, 116,
      112, 115, 58, 47, 47, 116, 114, 111, 112, 105, 99, 104, 111, 117, 115, 101, 46,
      114, 117, 47, 99, 97, 116, 97, 108, 111, 103, 47, 97, 107, 115, 101, 115, 115,
      117, 97, 114, 121, 47, 112, 114, 105, 98, 111, 114, 121, 95, 100, 108, 121, 97,
      95, 114, 97, 115, 116, 101, 110, 105, 121, 47, 10, 10, 1053, 1091, 1078, 1085,
      1072, 32, 1082, 1086, 1085, 1089, 1091, 1083, 1100, 1090, 1072, 1094, 1080, 1103,
      32, 1087, 1086, 32, 1072, 1082, 1089, 1077, 1089, 1089, 1091, 1072, 1088, 1072,
      1084, 63, 32, 1054, 1073, 1088, 1072, 1097, 1072, 1081, 1090, 1077, 1089, 1100,
      33, 32, 128522]"

text \<open>
  The Cyrillic literals of the patterns of \<open>extract_pot_size\<close>: the unit "cm", the words "diameter" and "size".
\<close>

definition unit_cm :: pystr where
  "unit_cm =
     [1089, 1084]"

definition word_diameter :: pystr where
  "word_diameter =
     [1076, 1080, 1072, 1084, 1077, 1090, 1088]"

definition word_size :: pystr where
  "word_size =
     [1088, 1072, 1079, 1084, 1077, 1088]"

text \<open>
  The three apologies of main.py: for an empty message, for an exception during the turn (it asks to repeat or to enter /start), and the replacement \<open>send_message\<close> uses for \<open>None\<close>.
\<close>

definition empty_message_apology :: pystr where
  "empty_message_apology =
     [1048, 1079, 1074, 1080, 1085, 1080, 1090, 1077, 44, 32, 1103, 32, 1087, 1086,
      1083, 1091, 1095, 1080, 1083, 32, 1087, 1091, 1089, 1090, 1086, 1077, 32, 1089,
      1086, 1086, 1073, 1097, 1077, 1085, 1080, 1077, 46, 32, 1055, 1086, 1078, 1072,
      1083, 1091, 1081, 1089, 1090, 1072, 44, 32, 1087, 1086, 1074, 1090, 1086, 1088,
      1080, 1090, 1077, 32, 1074, 1072, 1096, 32, 1079, 1072, 1087, 1088, 1086, 1089,
      46]"

definition processing_error_apology :: pystr where
  "processing_error_apology =
     [1048, 1079, 1074, 1080, 1085, 1080, 1090, 1077, 44, 32, 1087, 1088, 1086, 1080,
      1079, 1086, 1096, 1083, 1072, 32, 1086, 1096, 1080, 1073, 1082, 1072, 32, 1087,
      1088, 1080, 32, 1086, 1073, 1088, 1072, 1073, 1086, 1090, 1082, 1077, 32, 1074,
      1072, 1096, 1077, 1075, 1086, 32, 1079, 1072, 1087, 1088, 1086, 1089, 1072, 46,
      32, 1055, 1086, 1078, 1072, 1083, 1091, 1081, 1089, 1090, 1072, 44, 32, 1087,
      1086, 1074, 1090, 1086, 1088, 1080, 1090, 1077, 32, 1080, 1083, 1080, 32, 1074,
      1074, 1077, 1076, 1080, 1090, 1077, 32, 47, 115, 116, 97, 114, 116, 32, 1076,
      1083, 1103, 32, 1087, 1077, 1088, 1077, 1079, 1072, 1087, 1091, 1089, 1082, 1072,
      32, 1076, 1080, 1072, 1083, 1086, 1075, 1072, 46]"

definition technical_error_apology :: pystr where
  "technical_error_apology =
     [1048, 1079, 1074, 1080, 1085, 1080, 1090, 1077, 44, 32, 1087, 1088, 1086, 1080,
      1079, 1086, 1096, 1083, 1072, 32, 1090, 1077, 1093, 1085, 1080, 1095, 1077, 1089,
      1082, 1072, 1103, 32, 1086, 1096, 1080, 1073, 1082, 1072, 46, 32, 1055, 1086,
      1078, 1072, 1083, 1091, 1081, 1089, 1090, 1072, 44, 32, 1087, 1086, 1074, 1090,
      1086, 1088, 1080, 1090, 1077, 32, 1079, 1072, 1087, 1088, 1086, 1089, 32, 1080,
      1083, 1080, 32, 1085, 1072, 1087, 1080, 1096, 1080, 1090, 1077, 32, 47, 115, 116,
      97, 114, 116, 32, 1076, 1083, 1103, 32, 1087, 1077, 1088, 1077, 1079, 1072, 1087,
      1091, 1089, 1082, 1072, 32, 1076, 1080, 1072, 1083, 1086, 1075, 1072, 46]"

section \<open>The runtime outside the repository\<close>

text \<open>
  Exceptions are values. \<open>ExternalError\<close> stands for any exception of a collaborator
  (the OpenAI client, an HTTP call, the Agents SDK).
\<close>

datatype error =
    NameError string
  | TypeError string
  | AttributeError string
  | KeyError pystr
  | ValueError
  | ExternalError

text \<open>
  What a turn sends out: \<open>SendMessage\<close> is the POST of a non-blank text to the customer's
  chat that \<open>send_message\<close> makes, \<open>NotifySeller details is_preorder\<close> is a call of
  \<open>telegrambot.notify_seller\<close>, which notifies the staff and catches its own exceptions.
\<close>

datatype effect = SendMessage int pystr | NotifySeller pystr bool

text \<open>
  The answers of everything a turn asks outside the repository's code:
  \<^item> \<open>now\<close>: \<open>datetime.now()\<close>, naive local time in microseconds;
  \<^item> \<open>str_lower\<close>: \<open>str.lower\<close>, and \<open>decimal_value\<close>: the value of a code point that
    is a decimal digit for the pattern \<open>\d\<close> and for \<open>int()\<close> (both read Python's Unicode
    tables);
  \<^item> \<open>int_max_str_digits\<close>: \<open>sys.get_int_max_str_digits()\<close>, the longest digit string
    \<open>int()\<close> converts (4300 by default, 0 for no limit);
  \<^item> \<open>classifier_reply\<close>: the \<open>content\<close> of the chat completion \<open>classify_intent\<close> asks for
    the text, or the exception of the call;
  \<^item> \<open>quantity_answer\<close>: the integer \<open>extract_plant_quantity\<close> reads from its completion,
    \<open>None\<close> when the call or \<open>int()\<close> raises;
  \<^item> \<open>online_managers\<close>: how many users \<open>telegrambot.get_online_managers\<close> lists for a
    group id, or its exception;
  \<^item> \<open>runner_run\<close>: \<open>Runner.run\<close> on the session: its \<open>final_output\<close> or exception, the
    session as the tool calls left it, and what the tools sent.
\<close>

record world =
  now :: int
  str_lower :: "pystr \<Rightarrow> pystr"
  decimal_value :: "nat \<Rightarrow> nat option"
  int_max_str_digits :: nat
  classifier_reply :: "pystr \<Rightarrow> error + pystr"
  quantity_answer :: "pystr \<Rightarrow> int option"
  online_managers :: "int \<Rightarrow> error + nat"
  runner_run :: "ChatContext \<Rightarrow> (error + pystr option) \<times> ChatContext \<times> effect list"

text \<open>
  \<open>str.isspace\<close> of one code point, which is also what the pattern \<open>\s\<close> matches: the code
  points CPython lists as whitespace.
\<close>

definition py_isspace :: "nat \<Rightarrow> bool" where
  "py_isspace c = (c \<in> set [9, 10, 11, 12, 13, 28, 29, 30, 31, 32, 133, 160, 5760,
     8192, 8193, 8194, 8195, 8196, 8197, 8198, 8199, 8200, 8201, 8202, 8232, 8233,
     8239, 8287, 12288])"

definition strip :: "pystr \<Rightarrow> pystr" where
  "strip s = rev (dropWhile py_isspace (rev (dropWhile py_isspace s)))"

text \<open>
  Name lookup. A name a function does not assign is looked up among its parameters, then
  among the module's globals, then among the builtins, and raises \<open>NameError\<close> when none
  has it. \<open>bot_agent_globals\<close> lists every module-level name of bot\_agent.py (imports,
  assignments, functions). \<open>lookup_name\<close> searches the bindings of the scope that hold a
  value of the type in question; the two names looked up below, \<open>text\<close> and \<open>context\<close>,
  are neither module-level names nor builtins.
\<close>

definition bot_agent_globals :: "string list" where
  "bot_agent_globals =
     [''json'', ''config'', ''AsyncOpenAI'', ''plant_utils'', ''telegrambot'',
      ''ChatContext'', ''DialogState'', ''PERSONA_DESCRIPTION'', ''ADDRESS_INFO'',
      ''RESPONSE_FORMAT_INSTRUCTIONS'', ''Agent'', ''Runner'', ''function_tool'',
      ''ModelSettings'', ''RunContextWrapper'', ''logging'', ''re'', ''datetime'',
      ''logger'', ''CATEGORY_REPLIES'', ''DETAILS_PREFIX'', ''PLANT_POT_SIZE_MAPPING'',
      ''extract_plant_diameter'', ''generate_pot_link'',
      ''check_and_send_pot_suggestion'', ''classify_intent'', ''_make_instructions'',
      ''search'', ''order'', ''preorder'', ''suggest_accessories'', ''add_to_cart'',
      ''show_cart'', ''checkout_cart'', ''remove_from_cart'', ''agent'',
      ''extract_pot_size'', ''extract_plant_quantity'',
      ''is_working_hours_and_managers_available'', ''run_unified_agent'',
      ''send_accessories_message'']"

definition lookup_name :: "(string \<times> 'a) list \<Rightarrow> string \<Rightarrow> error + 'a" where
  "lookup_name scope n =
     (case map_of scope n of Some v \<Rightarrow> Inr v | None \<Rightarrow> Inl (NameError n))"

text \<open>How a block of statements ends: with a \<open>return\<close>, with an exception, or at its last line.\<close>

datatype 'a flow = Return 'a | Raise error | Continue

section \<open>bot\_agent.py: classification\<close>

text \<open>
  Lines 168 to 189 of \<open>classify_intent(ctx, text)\<close>. A text equal to the review request
  (both stripped) returns \<open>"review_ignore"\<close>. The next statement reads
  \<open>context.get_last_message()\<close>: the function's parameter is called \<open>ctx\<close>, so the name
  \<open>context\<close> is unbound and the statement raises \<open>NameError\<close>; had it been bound to the
  session, \<open>ChatContext\<close> has no method \<open>get_last_message\<close> and the call would raise
  \<open>AttributeError\<close>. The comparison with the short replies that follows is never reached.
\<close>

definition review_check :: "ChatContext \<Rightarrow> pystr \<Rightarrow> pystr flow" where
  "review_check ctx txt =
     (if strip txt = strip review_request_text then Return (asc ''review_ignore'')
      else case lookup_name [(''ctx'', ctx)] ''context'' of
             Inl e \<Rightarrow> Raise e
           | Inr c \<Rightarrow> Raise (AttributeError ''get_last_message''))"

text \<open>
  Lines 191 to 230: the completion's content, stripped and lowered, is returned when it
  is a key of \<open>CATEGORY_REPLIES\<close>, and \<open>"none"\<close> otherwise. An exception of the call
  propagates (there is no \<open>try\<close>).
\<close>

definition classify_llm :: "world \<Rightarrow> pystr \<Rightarrow> error + pystr" where
  "classify_llm w txt =
     (case classifier_reply w txt of
        Inl e \<Rightarrow> Inl e
      | Inr reply \<Rightarrow>
          (let category = str_lower w (strip reply)
           in if category \<notin> set (map fst CATEGORY_REPLIES) then Inr (asc ''none'')
              else Inr category))"

definition classify_intent :: "world \<Rightarrow> ChatContext \<Rightarrow> pystr \<Rightarrow> error + pystr" where
  "classify_intent w ctx txt =
     (case review_check ctx txt of
        Return v \<Rightarrow> Inr v
      | Raise e \<Rightarrow> Inl e
      | Continue \<Rightarrow> classify_llm w txt)"

text \<open>
  A call of \<open>classify_intent\<close> with keyword arguments: Python binds each keyword to the
  parameter of that name and raises \<open>TypeError\<close> for a keyword that names none.
\<close>

definition classify_intent_params :: "string list" where
  "classify_intent_params = [''ctx'', ''text'']"

definition classify_intent_keywords ::
  "world \<Rightarrow> string list \<Rightarrow> ChatContext \<Rightarrow> pystr \<Rightarrow> error + pystr" where
  "classify_intent_keywords w keywords ctx txt =
     (case filter (\<lambda>k. k \<notin> set classify_intent_params) keywords of
        [] \<Rightarrow> classify_intent w ctx txt
      | k # ks \<Rightarrow> Inl (TypeError k))"

section \<open>bot\_agent.py: pots\<close>

text \<open>
  The patterns of \<open>extract_pot_size\<close>, each as the match at the start of a string, giving
  group 1: \<open>(\d+)\s*cm\<close>, \<open>d(\d+)\<close>, and \<open>word\s*(\d+)\<close> for the words "diameter" and
  "size" (the unit and the words are Cyrillic). The quantifiers are greedy; giving back
  a digit or a space never helps, since what follows is neither.
\<close>

definition is_digit :: "world \<Rightarrow> nat \<Rightarrow> bool" where
  "is_digit w c = (decimal_value w c \<noteq> None)"

definition match_number_unit :: "world \<Rightarrow> pystr \<Rightarrow> pystr option" where
  "match_number_unit w s =
     (let ds = takeWhile (is_digit w) s;
          rest = dropWhile py_isspace (dropWhile (is_digit w) s)
      in if ds \<noteq> [] \<and> take (length unit_cm) rest = unit_cm then Some ds else None)"

definition match_d_number :: "world \<Rightarrow> pystr \<Rightarrow> pystr option" where
  "match_d_number w s =
     (case s of [] \<Rightarrow> None
      | c # cs \<Rightarrow> if c = 100 \<and> takeWhile (is_digit w) cs \<noteq> []
                  then Some (takeWhile (is_digit w) cs) else None)"

definition match_word_number :: "world \<Rightarrow> pystr \<Rightarrow> pystr \<Rightarrow> pystr option" where
  "match_word_number w word s =
     (let ds = takeWhile (is_digit w) (dropWhile py_isspace (drop (length word) s))
      in if take (length word) s = word \<and> ds \<noteq> [] then Some ds else None)"

text \<open>\<open>re.search\<close>: the match at the leftmost position that has one.\<close>

fun re_search :: "(pystr \<Rightarrow> pystr option) \<Rightarrow> pystr \<Rightarrow> pystr option" where
  "re_search m [] = m []"
| "re_search m (c # cs) = (case m (c # cs) of Some g \<Rightarrow> Some g | None \<Rightarrow> re_search m cs)"

text \<open>
  \<open>int(match.group(1))\<close> on a run of decimal digits: a run longer than the limit raises
  \<open>ValueError\<close>.
\<close>

definition digits_value :: "world \<Rightarrow> pystr \<Rightarrow> error + nat" where
  "digits_value w ds =
     (if int_max_str_digits w \<noteq> 0 \<and> length ds > int_max_str_digits w then Inl ValueError
      else Inr (foldl (\<lambda>acc c. 10 * acc +
                  (case decimal_value w c of Some d \<Rightarrow> d | None \<Rightarrow> 0)) 0 ds))"

text \<open>
  The loop over the patterns, each entry being the outcome of \<open>int()\<close> on the pattern's
  leftmost match (\<open>None\<close> for no match): the first pattern whose match is a size from 10
  to 70 decides; a pattern whose match is out of range is passed over; an exception of
  \<open>int()\<close> leaves the loop and the function (there is no \<open>try\<close>).
\<close>

fun first_size_in_range :: "(error + nat) option list \<Rightarrow> error + nat option" where
  "first_size_in_range [] = Inr None"
| "first_size_in_range (None # rest) = first_size_in_range rest"
| "first_size_in_range (Some (Inl e) # rest) = Inl e"
| "first_size_in_range (Some (Inr n) # rest) =
     (if 10 \<le> n \<and> n \<le> 70 then Inr (Some n) else first_size_in_range rest)"

definition extract_pot_size :: "world \<Rightarrow> pystr \<Rightarrow> error + nat option" where
  "extract_pot_size w txt =
     (let s = str_lower w txt
      in first_size_in_range
           (map (\<lambda>m. map_option (digits_value w) (re_search m s))
              [match_number_unit w, match_d_number w,
               match_word_number w word_diameter, match_word_number w word_size]))"

text \<open>\<open>str(n)\<close> for a natural number.\<close>

function str_nat :: "nat \<Rightarrow> pystr" where
  "str_nat n = (if n < 10 then [48 + n] else str_nat (n div 10) @ [48 + n mod 10])"
  by pat_completeness auto
termination
  by (relation "measure id") auto

declare str_nat.simps [simp del]

text \<open>
  The table from the diameter of a plant's pot to the range of planter diameters, and
  \<open>generate_pot_link\<close>: a diameter outside the table takes the range of the closest key
  (\<open>min\<close> with a key function keeps the first of equally close keys).
\<close>

definition PLANT_POT_SIZE_MAPPING :: "(nat \<times> nat \<times> nat) list" where
  "PLANT_POT_SIZE_MAPPING =
     [(9, 10, 12), (10, 10, 12), (11, 12, 15), (12, 12, 15), (13, 15, 18), (14, 15, 18),
      (15, 15, 18), (16, 19, 21), (17, 19, 21), (18, 19, 21), (19, 21, 25), (20, 21,
      25), (21, 21, 25), (22, 21, 25), (23, 26, 29), (24, 28, 30), (25, 30, 35), (26,
      30, 35), (27, 30, 35), (28, 30, 35), (29, 35, 40), (30, 35, 40), (31, 35, 40),
      (32, 35, 40), (33, 40, 45), (34, 40, 45), (35, 40, 45), (36, 43, 50), (37, 50,
      59), (38, 50, 59), (39, 50, 59), (40, 50, 59), (41, 50, 59), (42, 50, 59), (43,
      50, 59), (44, 50, 59), (45, 50, 59), (46, 60, 70), (47, 60, 70), (48, 60, 70),
      (49, 60, 70), (50, 60, 70), (51, 60, 70), (52, 60, 70), (53, 60, 70)]"

definition distance :: "nat \<Rightarrow> nat \<Rightarrow> nat" where
  "distance x d = (if x \<le> d then d - x else x - d)"

fun closest_key :: "nat \<Rightarrow> nat \<Rightarrow> nat list \<Rightarrow> nat" where
  "closest_key d best [] = best"
| "closest_key d best (x # xs) =
     closest_key d (if distance x d < distance best d then x else best) xs"

definition generate_pot_link :: "nat \<Rightarrow> error + pystr" where
  "generate_pot_link plant_diameter =
     (case (case map_of PLANT_POT_SIZE_MAPPING plant_diameter of
              Some r \<Rightarrow> Inr r
            | None \<Rightarrow>
               (case map fst PLANT_POT_SIZE_MAPPING of
                  [] \<Rightarrow> Inl ValueError
                | k # ks \<Rightarrow>
                   (case map_of PLANT_POT_SIZE_MAPPING (closest_key plant_diameter k ks) of
                      None \<Rightarrow> Inl (KeyError (str_nat (closest_key plant_diameter k ks)))
                    | Some r \<Rightarrow> Inr r)))
      of Inl e \<Rightarrow> Inl e
       | Inr (min_diameter, max_diameter) \<Rightarrow>
           Inr (asc ''https://tropichouse.ru/catalog/gorshki_i_kashpo/filter'' @
                asc ''/diameter-from-'' @ str_nat min_diameter @ asc ''-to-'' @
                str_nat max_diameter @ asc ''/apply/''))"

section \<open>bot\_agent.py: escalation\<close>

text \<open>\<open>extract_plant_quantity\<close>: any exception of the call or of \<open>int()\<close> gives 1.\<close>

definition extract_plant_quantity :: "world \<Rightarrow> pystr \<Rightarrow> int" where
  "extract_plant_quantity w txt = (case quantity_answer w txt of None \<Rightarrow> 1 | Some n \<Rightarrow> n)"

text \<open>
  \<open>is_working_hours_and_managers_available\<close>: working hours are the hours before 19;
  the manager group is B2B (id 71 in config.py) for \<open>office_plant\<close> and B2C (id 2)
  otherwise; an exception of the query is caught and counts as nobody online.
\<close>

definition current_hour :: "world \<Rightarrow> int" where
  "current_hour w = (now w div 3600000000) mod 24"

definition is_working_hours_and_managers_available :: "world \<Rightarrow> pystr \<Rightarrow> bool \<times> bool" where
  "is_working_hours_and_managers_available w category =
     (let is_working_hours = (current_hour w < 19);
          has_online_managers =
            (if category \<in> set [asc ''office_plant'', asc ''multiple_plants'',
                  asc ''live_photo'', asc ''ask_human'', asc ''reclamation'',
                  asc ''order_question'', asc ''call_request'']
             then (case online_managers w (if category = asc ''office_plant'' then 71 else 2) of
                     Inl e \<Rightarrow> False
                   | Inr n \<Rightarrow> n > 0)
             else False)
      in (is_working_hours, has_online_managers))"

text \<open>
  \<open>send_message\<close> of main.py: \<open>None\<close> is replaced by an apology, an empty or blank
  message is not sent.
\<close>

definition send_message :: "int \<Rightarrow> pystr option \<Rightarrow> effect list" where
  "send_message cid msg =
     (let m = (case msg of None \<Rightarrow> technical_error_apology | Some t \<Rightarrow> t)
      in if m = [] \<or> strip m = [] then [] else [SendMessage cid m])"

text \<open>
  The result of a turn: what \<open>run_unified_agent\<close> returns or raises, the session as the
  turn left it (the object is changed in place, so changes made before an exception
  stay), and what was sent out.
\<close>

type_synonym turn = "(error + pystr option) \<times> ChatContext \<times> effect list"

text \<open>Lines 599 to 610: the reply to \<open>pot_request\<close>.\<close>

definition pot_reply :: "world \<Rightarrow> ChatContext \<Rightarrow> pystr \<Rightarrow> turn" where
  "pot_reply w ctx user_message =
     (case (case extract_pot_size w user_message of
              Inl e \<Rightarrow> Inl e
            | Inr None \<Rightarrow> Inr pot_catalog_response
            | Inr (Some pot_size) \<Rightarrow>
                if pot_size = 0 then Inr pot_catalog_response
                else (case generate_pot_link pot_size of
                        Inl e \<Rightarrow> Inl e
                      | Inr pot_link \<Rightarrow>
                          Inr (pot_response_head @ str_nat pot_size @ pot_response_mid @ pot_link)))
      of Inl e \<Rightarrow> (Inl e, ctx, [])
       | Inr response \<Rightarrow>
           (Inr (Some response), add_message ctx (asc ''assistant'') (Some response), []))"

text \<open>
  Lines 612 to 649: a category other than \<open>"none"\<close>. \<open>DETAILS_PREFIX[category]\<close> and
  \<open>CATEGORY_REPLIES[category]\<close> raise \<open>KeyError\<close> for a missing key, at the statement that
  reads them.
\<close>

definition escalate :: "world \<Rightarrow> ChatContext \<Rightarrow> pystr \<Rightarrow> pystr \<Rightarrow> turn" where
  "escalate w ctx category user_message =
     (if category \<in> set [asc ''order_question'', asc ''call_request''] then
        (case map_of DETAILS_PREFIX category of
           None \<Rightarrow> (Inl (KeyError category), ctx, [])
         | Some prefix \<Rightarrow>
             (Inr (Some []),
              change_state (ctx\<lparr>subject := Some prefix\<rparr>) MANAGER_CALLED,
              [NotifySeller (prefix @ asc '': '' @ user_message) False]))
      else
        (case is_working_hours_and_managers_available w category of
           (is_working_hours, has_online_managers) \<Rightarrow>
             if \<not> is_working_hours \<and> \<not> has_online_managers then
               (let ctx1 = add_message ctx (asc ''assistant'') (Some after_hours_message)
                in case map_of DETAILS_PREFIX category of
                     None \<Rightarrow> (Inl (KeyError category), ctx1, [])
                   | Some prefix \<Rightarrow>
                       (Inr (Some after_hours_message), ctx1\<lparr>subject := Some prefix\<rparr>,
                        [NotifySeller (prefix @ asc '': '' @ user_message) False]))
             else
               (case map_of DETAILS_PREFIX category of
                  None \<Rightarrow> (Inl (KeyError category), ctx, [])
                | Some prefix \<Rightarrow>
                    (let ctx1 = ctx\<lparr>subject := Some prefix\<rparr>;
                         sent = [NotifySeller (prefix @ asc '': '' @ user_message) False]
                     in case map_of CATEGORY_REPLIES category of
                          None \<Rightarrow> (Inl (KeyError category), ctx1, sent)
                        | Some reply \<Rightarrow>
                            (Inr (Some reply),
                             change_state (add_message ctx1 (asc ''assistant'') (Some reply))
                               MANAGER_CALLED,
                             sent)))))"

text \<open>
  Lines 651 to 667: the automated turn. When the tools left the session in \<open>UPSELL\<close>,
  the accessories message is sent, the session moves to \<open>COMPLETED\<close> and \<open>""\<close> is
  returned; otherwise the final output is recorded and returned.
\<close>

definition automated_turn :: "world \<Rightarrow> ChatContext \<Rightarrow> turn" where
  "automated_turn w ctx =
     (case runner_run w ctx of
        (Inl e, ctx1, sent) \<Rightarrow> (Inl e, ctx1, sent)
      | (Inr final_output, ctx1, sent) \<Rightarrow>
          if state ctx1 = UPSELL then
            (Inr (Some []), change_state ctx1 COMPLETED,
             sent @ send_message (chat_id ctx1) (Some accessories_message))
          else
            (Inr final_output,
             (case final_output of
                None \<Rightarrow> ctx1
              | Some t \<Rightarrow> add_message ctx1 (asc ''assistant'') (Some t)),
             sent))"

text \<open>
  Lines 591 to 596: \<open>office_plant\<close> counts as \<open>"none"\<close> unless more than one plant is
  asked for.
\<close>

definition refine_category :: "world \<Rightarrow> pystr \<Rightarrow> pystr \<Rightarrow> pystr" where
  "refine_category w classified user_message =
     (if classified = asc ''office_plant'' \<and> extract_plant_quantity w user_message \<le> 1
      then asc ''none'' else classified)"

text \<open>
  Lines 577 to 667, the body of \<open>run_unified_agent\<close> after its first statement: the
  user's message is recorded; a session in \<open>MANAGER_CALLED\<close> returns \<open>""\<close> unless the
  message is \<open>/start\<close>; otherwise the message is classified and routed.
\<close>

definition agent_turn :: "world \<Rightarrow> ChatContext \<Rightarrow> pystr \<Rightarrow> turn" where
  "agent_turn w ctx0 user_message =
     (let ctx = add_message ctx0 (asc ''user'') (Some user_message)
      in if state ctx = MANAGER_CALLED \<and>
            str_lower w (strip user_message) \<notin> set [asc ''/start'']
         then (Inr (Some []), ctx, [])
         else
           (case classify_intent w ctx user_message of
              Inl e \<Rightarrow> (Inl e, ctx, [])
            | Inr classified \<Rightarrow>
                (let category = refine_category w classified user_message
                 in if category = asc ''pot_request'' then pot_reply w ctx user_message
                    else if category \<noteq> asc ''none'' then escalate w ctx category user_message
                    else automated_turn w ctx)))"

text \<open>
  Lines 571 to 575, the first statement of \<open>run_unified_agent(context, user_message,
  openai_client)\<close>:
  \<^verbatim>\<open>intent = await classify_intent(text=text, context=context)\<close>
  The argument \<open>text\<close> is a name the function neither has as a parameter nor assigns, so
  evaluating it raises \<open>NameError\<close> before the call is made. (Had it a value, the
  keyword \<open>context\<close> names no parameter of \<open>classify_intent\<close>.) The \<open>return ""\<close> for
  \<open>"review_ignore"\<close> follows the call.
\<close>

definition intent_check :: "world \<Rightarrow> ChatContext \<Rightarrow> pystr \<Rightarrow> pystr option flow" where
  "intent_check w ctx user_message =
     (case lookup_name [(''user_message'', user_message)] ''text'' of
        Inl e \<Rightarrow> Raise e
      | Inr txt \<Rightarrow>
          (case classify_intent_keywords w [''text'', ''context''] ctx txt of
             Inl e \<Rightarrow> Raise e
           | Inr intent \<Rightarrow>
               if intent = asc ''review_ignore'' then Return (Some []) else Continue))"

definition run_unified_agent :: "world \<Rightarrow> ChatContext \<Rightarrow> pystr \<Rightarrow> turn" where
  "run_unified_agent w ctx user_message =
     (case intent_check w ctx user_message of
        Raise e \<Rightarrow> (Inl e, ctx, [])
      | Return r \<Rightarrow> (Inr r, ctx, [])
      | Continue \<Rightarrow> agent_turn w ctx user_message)"

section \<open>main.py: one inbound text\<close>

text \<open>
  \<open>handle_client_message\<close>: \<open>/start\<close> replaces the session by a new one; a chat without
  a session, or with one older than seven days, gets a new one; an empty message is
  answered with an apology; otherwise the turn runs, a non-empty reply is sent, and any
  \<open>Exception\<close> of the turn is answered with the apology that asks to repeat or to enter
  \<open>/start\<close>. The result is the session store and what was sent out.
\<close>

definition handle_client_message ::
  "world \<Rightarrow> (int \<rightharpoonup> ChatContext) \<Rightarrow> int \<Rightarrow> pystr \<Rightarrow> (int \<rightharpoonup> ChatContext) \<times> effect list" where
  "handle_client_message w chat_contexts cid message_text =
     (let contexts1 =
            (if message_text \<noteq> [] \<and> str_lower w (strip message_text) \<in> set [asc ''/start'']
             then chat_contexts(cid \<mapsto> new_ChatContext cid (now w)) else chat_contexts);
          ctx =
            (case contexts1 cid of
               None \<Rightarrow> new_ChatContext cid (now w)
             | Some c \<Rightarrow> if is_expired c (now w) 7 then new_ChatContext cid (now w) else c)
      in if message_text = []
         then (contexts1(cid \<mapsto> ctx), send_message cid (Some empty_message_apology))
         else
           (case run_unified_agent w ctx message_text of
              (Inr bot_reply, ctx1, sent) \<Rightarrow>
                (contexts1(cid \<mapsto> ctx1),
                 sent @ (if truthy bot_reply then send_message cid bot_reply else []))
            | (Inl e, ctx1, sent) \<Rightarrow>
                (contexts1(cid \<mapsto> ctx1),
                 sent @ send_message cid (Some processing_error_apology))))"

text \<open>Sample data for the closed theorems.\<close>

definition monstera :: plant where
  "monstera = \<lparr>plant_name = PyStr (asc ''Monstera 21/110''), plant_fields = []\<rparr>"

definition ficus :: plant where
  "ficus = \<lparr>plant_name = PyStr (asc ''Ficus''), plant_fields = []\<rparr>"

text \<open>A row of the spreadsheet whose name cell is empty.\<close>

definition unnamed_plant :: plant where
  "unnamed_plant = \<lparr>plant_name = PyNaN, plant_fields = []\<rparr>"

definition order_kind :: pystr where
  "order_kind = asc ''order''"

definition sample_context :: ChatContext where
  "sample_context =
     (new_ChatContext 7 0)\<lparr>state := ORDERING, desired_size := Some (asc ''floor''),
        desired_location := Some (asc ''office''),
        cart := [\<lparr>item_plant = monstera, quantity = 5, item_type = order_kind\<rparr>]\<rparr>"

text \<open>
  A sample runtime: it is 20:30, nobody is online, the classifier answers the given
  category for every text, the quantity extractor answers 3, the agent answers "ok".
  Its \<open>str.lower\<close> and decimal digits are Python's on ASCII and on the Russian alphabet,
  its limit for \<open>int()\<close> is Python's default.
\<close>

definition sample_lower_char :: "nat \<Rightarrow> nat" where
  "sample_lower_char c =
     (if 65 \<le> c \<and> c \<le> 90 then c + 32
      else if 1040 \<le> c \<and> c \<le> 1071 then c + 32
      else if 1024 \<le> c \<and> c \<le> 1039 then c + 80
      else c)"

definition sample_decimal :: "nat \<Rightarrow> nat option" where
  "sample_decimal c = (if 48 \<le> c \<and> c \<le> 57 then Some (c - 48) else None)"

definition sample_world :: "pystr \<Rightarrow> world" where
  "sample_world category =
     \<lparr> now = 73800000000,
       str_lower = map sample_lower_char,
       decimal_value = sample_decimal,
       int_max_str_digits = 4300,
       classifier_reply = (\<lambda>t. Inr category),
       quantity_answer = (\<lambda>t. Some 3),
       online_managers = (\<lambda>g. Inr 0),
       runner_run = (\<lambda>c. (Inr (Some (asc ''ok'')), c, [])) \<rparr>"

text \<open>A session that was handed to a manager, and one in the middle of a search.\<close>

definition escalated_context :: ChatContext where
  "escalated_context = (new_ChatContext 7 0)\<lparr>state := MANAGER_CALLED\<rparr>"

definition searching_context :: ChatContext where
  "searching_context = (new_ChatContext 7 0)\<lparr>state := PLANT_SEARCH\<rparr>"


definition call_me :: pystr where
  "call_me = [1055, 1086, 1079, 1074, 1086, 1085, 1080, 1090, 1077, 32, 1084, 1085, 1077]"

definition plant_wilted :: pystr where
  "plant_wilted = [1056, 1072, 1089, 1090, 1077, 1085, 1080, 1077, 32, 1079, 1072, 1074,
     1103, 1083, 1086]"

definition planter_20 :: pystr where
  "planter_20 = [1082, 1072, 1096, 1087, 1086, 32, 50, 48, 32, 1089, 1084]"



section \<open>The cart\<close>

lemma py_eq_sym: "py_eq a b = py_eq b a"
  by (auto simp: py_eq_def)

lemma py_eq_refl: "a \<noteq> PyNaN \<Longrightarrow> py_eq a a"
  by (simp add: py_eq_def)

lemma add_to_cart_rows_absent:
  "filter (same_item p) rows = [] \<Longrightarrow>
   add_to_cart_rows rows p q ty = rows @ [\<lparr>item_plant = p, quantity = q, item_type = ty\<rparr>]"
  by (induction rows) (auto split: if_splits)

lemma same_item_quantity_update [simp]:
  "same_item p (item\<lparr>quantity := n\<rparr>) = same_item p item"
  by (simp add: same_item_def)

lemma same_item_new_row:
  "same_item p' \<lparr>item_plant = p, quantity = q, item_type = ty\<rparr> = py_eq (plant_name p) (plant_name p')"
  by (simp add: same_item_def)

lemma add_to_cart_rows_appended:
  "filter (same_item p) rows = [] \<Longrightarrow> plant_name p \<noteq> PyNaN \<Longrightarrow>
   add_to_cart_rows (rows @ [\<lparr>item_plant = p, quantity = q1, item_type = t1\<rparr>]) p q2 t2
     = rows @ [\<lparr>item_plant = p, quantity = q1 + q2, item_type = t1\<rparr>]"
  by (induction rows) (auto simp: same_item_def py_eq_def split: if_splits)

lemma filter_add_to_cart_rows:
  "plant_name p \<noteq> PyNaN \<Longrightarrow>
   filter (same_item p) (add_to_cart_rows rows p q ty) =
     (case filter (same_item p) rows of
        [] \<Rightarrow> [\<lparr>item_plant = p, quantity = q, item_type = ty\<rparr>]
      | e # es \<Rightarrow> e\<lparr>quantity := quantity e + q\<rparr> # es)"
  by (induction rows) (auto simp: same_item_new_row py_eq_refl)

lemma filter_other_add_to_cart_rows:
  "\<not> py_eq (plant_name p') (plant_name p) \<Longrightarrow>
   filter (same_item p') (add_to_cart_rows rows p q ty) = filter (same_item p') rows"
  by (induction rows) (auto simp: same_item_def py_eq_def)

text \<open>
  Adding a plant never makes a second row that matches a plant: a cart built by
  \<open>add_to_cart\<close> from the empty cart has at most one row matching any plant. A plant
  whose name is NaN matches no row, its own included: every addition of it appends a
  row.
\<close>

lemma add_to_cart_rows_keeps_one_row:
  assumes "length (filter (same_item p') rows) \<le> 1"
  shows "length (filter (same_item p') (add_to_cart_rows rows p q ty)) \<le> 1"
proof (cases "py_eq (plant_name p') (plant_name p)")
  case True
  then have same: "same_item p' = same_item p" and named: "plant_name p \<noteq> PyNaN"
    by (auto simp: same_item_def py_eq_def fun_eq_iff)
  show ?thesis
    using assms unfolding same filter_add_to_cart_rows [OF named]
    by (cases "filter (same_item p) rows") simp_all
next
  case False
  then show ?thesis using assms by (simp add: filter_other_add_to_cart_rows)
qed

lemma add_to_cart_rows_nan:
  "plant_name p = PyNaN \<Longrightarrow>
   add_to_cart_rows rows p q ty = rows @ [\<lparr>item_plant = p, quantity = q, item_type = ty\<rparr>]"
  by (rule add_to_cart_rows_absent) (simp add: same_item_def py_eq_def)

lemma add_unnamed_plant_twice:
  "add_to_cart_rows (add_to_cart_rows [] unnamed_plant 1 order_kind) unnamed_plant 2 order_kind
     = [\<lparr>item_plant = unnamed_plant, quantity = 1, item_type = order_kind\<rparr>,
        \<lparr>item_plant = unnamed_plant, quantity = 2, item_type = order_kind\<rparr>]"
proof -
  have n: "plant_name unnamed_plant = PyNaN" by (simp add: unnamed_plant_def)
  show ?thesis by (simp only: add_to_cart_rows_nan [OF n] append.simps)
qed

text \<open>
  Claim C2, stated for every cart, fails where the cart already holds the item: the row
  then ends with the old quantity plus both additions. Here the cart holds five of the
  plant and one plus two are added.
\<close>

theorem add_to_cart_twice_counterexample:
  "cart (add_to_cart (add_to_cart sample_context monstera 1 order_kind) monstera 2 order_kind)
     = [\<lparr>item_plant = monstera, quantity = 8, item_type = order_kind\<rparr>]
   \<and> (8::int) \<noteq> 1 + 2"
  by (simp add: add_to_cart_def sample_context_def new_ChatContext_def same_item_def
      py_eq_def monstera_def)

text \<open>
  Claim C2 as amended: the item's name is equal to itself under \<open>==\<close> (it is not the NaN
  of an empty name cell) and the cart has at most one row that matches it. Then adding
  the item with quantity \<open>q1\<close> and then with \<open>q2\<close> leaves exactly one matching row,
  whose quantity is the quantity the cart held before (0 when it held none) plus
  \<open>q1 + q2\<close>; when the cart held none, the result is the old cart with one new row of
  quantity \<open>q1 + q2\<close> appended.
\<close>

theorem add_to_cart_twice_merges:
  assumes "plant_name p \<noteq> PyNaN"
    and "length (filter (same_item p) (cart ctx)) \<le> 1"
  shows "(\<exists>e. filter (same_item p) (cart (add_to_cart (add_to_cart ctx p q1 t1) p q2 t2)) = [e]
            \<and> quantity e = cart_quantity (cart ctx) p + q1 + q2)
         \<and> (filter (same_item p) (cart ctx) = [] \<longrightarrow>
              cart (add_to_cart (add_to_cart ctx p q1 t1) p q2 t2)
                = cart ctx @ [\<lparr>item_plant = p, quantity = q1 + q2, item_type = t1\<rparr>])"
proof (cases "filter (same_item p) (cart ctx)")
  case Nil
  have once: "add_to_cart_rows (cart ctx) p q1 t1
      = cart ctx @ [\<lparr>item_plant = p, quantity = q1, item_type = t1\<rparr>]"
    using Nil by (rule add_to_cart_rows_absent)
  have twice: "add_to_cart_rows (cart ctx @ [\<lparr>item_plant = p, quantity = q1, item_type = t1\<rparr>]) p q2 t2
      = cart ctx @ [\<lparr>item_plant = p, quantity = q1 + q2, item_type = t1\<rparr>]"
    using Nil assms(1) by (rule add_to_cart_rows_appended)
  have new_row: "same_item p \<lparr>item_plant = p, quantity = q1 + q2, item_type = t1\<rparr>"
    using assms(1) by (simp add: same_item_new_row py_eq_refl)
  show ?thesis
    using Nil once twice new_row by (simp add: add_to_cart_def cart_quantity_def)
next
  case (Cons e es)
  with assms(2) have es: "es = []" by simp
  show ?thesis
    using Cons es
    by (simp add: add_to_cart_def cart_quantity_def filter_add_to_cart_rows [OF assms(1)])
qed

theorem add_to_cart_twice_merges_witness:
  "(\<exists>e. filter (same_item monstera)
          (cart (add_to_cart (add_to_cart sample_context monstera 1 order_kind) monstera 2 order_kind)) = [e]
        \<and> quantity e = 5 + 1 + 2)
   \<and> (\<exists>e. filter (same_item ficus)
          (cart (add_to_cart (add_to_cart sample_context ficus 1 order_kind) ficus 2 order_kind)) = [e]
        \<and> quantity e = 0 + 1 + 2)"
proof -
  have nm: "plant_name monstera \<noteq> PyNaN" and nf: "plant_name ficus \<noteq> PyNaN"
    by (simp_all add: monstera_def ficus_def)
  have m: "length (filter (same_item monstera) (cart sample_context)) \<le> 1"
    by (simp add: sample_context_def new_ChatContext_def)
  have f: "length (filter (same_item ficus) (cart sample_context)) \<le> 1"
    by (simp add: sample_context_def new_ChatContext_def)
  have qm: "cart_quantity (cart sample_context) monstera = 5"
    by (simp add: cart_quantity_def sample_context_def new_ChatContext_def same_item_def
        py_eq_def monstera_def)
  have qf: "cart_quantity (cart sample_context) ficus = 0"
    by (simp add: cart_quantity_def sample_context_def new_ChatContext_def same_item_def
        py_eq_def monstera_def ficus_def asc_def)
  show ?thesis
    using add_to_cart_twice_merges [OF nm m, of 1 order_kind 2 order_kind]
      add_to_cart_twice_merges [OF nf f, of 1 order_kind 2 order_kind] qm qf
    by simp
qed

section \<open>State transitions\<close>

text \<open>
  Claim C3: whatever the session and its cart, a transition whose target state is
  \<open>COMPLETED\<close> leaves the cart empty.
\<close>

theorem change_state_completed_clears_cart:
  "cart (change_state ctx COMPLETED) = []"
  by (simp add: change_state_def Let_def clear_cart_def reset_out_of_stock_state_def)

text \<open>
  Claim C4: a transition into \<open>START\<close> or \<open>PLANT_SEARCH\<close> sets both preference fields to
  \<open>None\<close> when the previous state is outside \<open>START\<close>, \<open>PLANT_SEARCH\<close>,
  \<open>CART_MANAGEMENT\<close>, leaves them as they were when it is one of the three, and in both
  cases leaves the cart as it was.
\<close>

theorem change_state_search_preferences:
  assumes "new_state = START \<or> new_state = PLANT_SEARCH"
  shows "desired_size (change_state ctx new_state) =
           (if state ctx \<in> {START, PLANT_SEARCH, CART_MANAGEMENT} then desired_size ctx else None)
       \<and> desired_location (change_state ctx new_state) =
           (if state ctx \<in> {START, PLANT_SEARCH, CART_MANAGEMENT} then desired_location ctx else None)
       \<and> cart (change_state ctx new_state) = cart ctx"
  using assms
  by (auto simp: change_state_def Let_def clear_cart_def reset_out_of_stock_state_def
      reset_preferences_def)

theorem change_state_search_preferences_witness:
  "desired_size (change_state sample_context PLANT_SEARCH) = None
   \<and> desired_location (change_state sample_context PLANT_SEARCH) = None
   \<and> cart (change_state sample_context PLANT_SEARCH)
       = [\<lparr>item_plant = monstera, quantity = 5, item_type = order_kind\<rparr>]
   \<and> desired_size (change_state (sample_context\<lparr>state := CART_MANAGEMENT\<rparr>) START)
       = Some (asc ''floor'')
   \<and> cart (change_state (sample_context\<lparr>state := CART_MANAGEMENT\<rparr>) START)
       = [\<lparr>item_plant = monstera, quantity = 5, item_type = order_kind\<rparr>]"
  using change_state_search_preferences [of PLANT_SEARCH sample_context]
    change_state_search_preferences [of START "sample_context\<lparr>state := CART_MANAGEMENT\<rparr>"]
  by (simp add: sample_context_def new_ChatContext_def)

section \<open>The debounce window\<close>

lemma image_messages_append:
  "image_messages (ms @ ms') = image_messages ms @ image_messages ms'"
  by (induction ms rule: image_messages.induct) (auto split: option.splits)

lemma text_messages_append:
  "text_messages (ms @ ms') = text_messages ms @ text_messages ms'"
  by (induction ms rule: text_messages.induct) (auto split: option.splits)




lemma process_user_messages_finally_timer:
  "cid \<notin> user_timers (process_user_messages_finally q cid)"
  "user_messages (process_user_messages_finally q cid) = user_messages q"
  by (simp_all add: process_user_messages_finally_def)




section \<open>Strings\<close>

lemma strip_empty_iff: "strip s = [] \<longleftrightarrow> (\<forall>c \<in> set s. py_isspace c)"
proof
  assume "strip s = []"
  then have all: "\<forall>c \<in> set (dropWhile py_isspace s). py_isspace c"
    by (simp add: strip_def dropWhile_eq_Nil_conv)
  have "dropWhile py_isspace s = []"
  proof (cases "dropWhile py_isspace s")
    case Nil
    then show ?thesis .
  next
    case (Cons a rest)
    then have "\<not> py_isspace a" using hd_dropWhile [of py_isspace s] by simp
    with all Cons show ?thesis by simp
  qed
  then show "\<forall>c \<in> set s. py_isspace c" by (simp add: dropWhile_eq_Nil_conv)
next
  assume "\<forall>c \<in> set s. py_isspace c"
  then show "strip s = []" by (auto simp: strip_def dest: set_dropWhileD)
qed

lemma strip_unchanged:
  "s \<noteq> [] \<Longrightarrow> \<not> py_isspace (hd s) \<Longrightarrow> \<not> py_isspace (last s) \<Longrightarrow> strip s = s"
proof -
  assume s: "s \<noteq> []" and h: "\<not> py_isspace (hd s)" and l: "\<not> py_isspace (last s)"
  from s h have front: "dropWhile py_isspace s = s" by (cases s) auto
  from s l have rear: "dropWhile py_isspace (rev s) = rev s"
    by (cases "rev s") (auto simp: last_rev [symmetric] simp del: last_rev)
  show ?thesis by (simp add: strip_def front rear)
qed

lemma send_processing_error_apology:
  "send_message cid (Some processing_error_apology) = [SendMessage cid processing_error_apology]"
  by (simp add: send_message_def strip_empty_iff processing_error_apology_def py_isspace_def)

lemma send_after_hours_message:
  "send_message cid (Some after_hours_message) = [SendMessage cid after_hours_message]"
  by (simp add: send_message_def strip_empty_iff after_hours_message_def py_isspace_def)

lemma send_blank: "send_message cid (Some []) = []"
  by (simp add: send_message_def)

section \<open>Classification\<close>

lemma category_keys:
  "map fst CATEGORY_REPLIES =
     [asc ''live_photo'', asc ''multiple_plants'', asc ''order_question'', asc ''call_request'',
      asc ''reclamation'', asc ''ask_human'', asc ''office_plant'']"
  by (simp add: CATEGORY_REPLIES_def)

lemma details_keys: "map fst DETAILS_PREFIX = map fst CATEGORY_REPLIES"
  by (simp add: CATEGORY_REPLIES_def DETAILS_PREFIX_def)


lemma review_check_return:
  "review_check ctx txt = Return v \<Longrightarrow> v = asc ''review_ignore''"
  by (auto simp: review_check_def lookup_name_def split: if_splits)


lemma classify_llm_range:
  "classify_llm w txt = Inr v \<Longrightarrow> v \<in> set (map fst CATEGORY_REPLIES) \<or> v = asc ''none''"
  by (auto simp: classify_llm_def Let_def split: sum.splits if_splits)


lemma refine_category_pot_request:
  "v \<noteq> asc ''pot_request'' \<Longrightarrow> refine_category w v txt \<noteq> asc ''pot_request''"
  by (simp add: refine_category_def asc_def)

text \<open>
  \<open>classify_intent\<close> returns for one text only, the review request; for every other
  text line 184 raises \<open>NameError\<close> and the classifier is not asked.
\<close>

lemma classify_intent_returns_only_review:
  "classify_intent w ctx msg = Inr v \<Longrightarrow>
   v = asc ''review_ignore'' \<and> strip msg = strip review_request_text"
  by (auto simp: classify_intent_def review_check_def lookup_name_def split: if_splits)


section \<open>The first statement of the turn\<close>

lemma text_not_global:
  "''text'' \<notin> set bot_agent_globals" "''context'' \<notin> set bot_agent_globals"
  by (simp_all add: bot_agent_globals_def)

lemma intent_check_raises: "intent_check w ctx msg = Raise (NameError ''text'')"
  by (simp add: intent_check_def lookup_name_def)

lemma run_unified_agent_raises:
  "run_unified_agent w ctx msg = (Inl (NameError ''text''), ctx, [])"
  by (simp add: run_unified_agent_def intent_check_raises)

lemma handle_client_message_sends_apology:
  "msg \<noteq> [] \<Longrightarrow>
   snd (handle_client_message w cs cid msg) = [SendMessage cid processing_error_apology]"
  by (simp add: handle_client_message_def Let_def run_unified_agent_raises
      send_processing_error_apology)

lemma handle_client_message_keeps_session:
  "cs cid = Some ctx \<Longrightarrow> \<not> is_expired ctx (now w) 7 \<Longrightarrow>
   str_lower w (strip msg) \<noteq> asc ''/start'' \<Longrightarrow>
   fst (handle_client_message w cs cid msg) cid = Some ctx"
  by (simp add: handle_client_message_def Let_def run_unified_agent_raises)

section \<open>The blocks of the turn, taken alone\<close>

text \<open>
  What the statements after the first one do with a session, a message and a category,
  where they are reached.
\<close>

lemma change_state_manager_called:
  "state (change_state ctx MANAGER_CALLED) = MANAGER_CALLED"
  "cart (change_state ctx MANAGER_CALLED) = cart ctx"
  by (simp_all add: change_state_def Let_def reset_out_of_stock_state_def)

lemma agent_turn_manager_called:
  "state ctx = MANAGER_CALLED \<Longrightarrow> str_lower w (strip msg) \<noteq> asc ''/start'' \<Longrightarrow>
   agent_turn w ctx msg = (Inr (Some []), add_message ctx (asc ''user'') (Some msg), [])"
  by (simp add: agent_turn_def Let_def add_message_def)

lemma category_reply_defined:
  "category \<in> set (map fst CATEGORY_REPLIES) \<Longrightarrow>
   \<exists>reply. map_of CATEGORY_REPLIES category = Some reply"
  by (cases "map_of CATEGORY_REPLIES category") (simp_all add: map_of_eq_None_iff)

lemma details_prefix_defined:
  "category \<in> set (map fst CATEGORY_REPLIES) \<Longrightarrow>
   \<exists>prefix. map_of DETAILS_PREFIX category = Some prefix"
  by (cases "map_of DETAILS_PREFIX category")
    (simp_all add: map_of_eq_None_iff details_keys [symmetric])

lemma escalate_silent:
  assumes "category = asc ''order_question'' \<or> category = asc ''call_request''"
  shows "\<exists>prefix. escalate w ctx category msg =
      (Inr (Some []), change_state (ctx\<lparr>subject := Some prefix\<rparr>) MANAGER_CALLED,
       [NotifySeller (prefix @ asc '': '' @ msg) False])"
proof -
  from assms have k: "category \<in> set (map fst CATEGORY_REPLIES)"
    unfolding category_keys by auto
  from details_prefix_defined [OF k]
  obtain prefix where p: "map_of DETAILS_PREFIX category = Some prefix" ..
  from assms have q: "category \<in> set [asc ''order_question'', asc ''call_request'']"
    by auto
  show ?thesis
  proof (rule exI [of _ prefix])
    show "escalate w ctx category msg =
      (Inr (Some []), change_state (ctx\<lparr>subject := Some prefix\<rparr>) MANAGER_CALLED,
       [NotifySeller (prefix @ asc '': '' @ msg) False])"
      by (simp only: escalate_def p q if_True option.case)
  qed
qed

lemma has_online_managers_failure:
  "online_managers w 71 = Inl e \<Longrightarrow> online_managers w 2 = Inl e' \<Longrightarrow>
   snd (is_working_hours_and_managers_available w category) = False"
  by (simp add: is_working_hours_and_managers_available_def Let_def)

lemma silent_categories_apart:
  "asc ''live_photo'' \<notin> set [asc ''order_question'', asc ''call_request'']"
  "asc ''multiple_plants'' \<notin> set [asc ''order_question'', asc ''call_request'']"
  "asc ''reclamation'' \<notin> set [asc ''order_question'', asc ''call_request'']"
  "asc ''ask_human'' \<notin> set [asc ''order_question'', asc ''call_request'']"
  "asc ''office_plant'' \<notin> set [asc ''order_question'', asc ''call_request'']"
  by (simp_all add: asc_def)

lemma replying_category:
  assumes "category \<in> set [asc ''live_photo'', asc ''multiple_plants'', asc ''reclamation'',
             asc ''ask_human'', asc ''office_plant'']"
  shows "category \<in> set (map fst CATEGORY_REPLIES)"
    and "category \<notin> set [asc ''order_question'', asc ''call_request'']"
proof -
  from assms show "category \<in> set (map fst CATEGORY_REPLIES)"
    unfolding category_keys by auto
  from assms consider "category = asc ''live_photo''" | "category = asc ''multiple_plants''"
    | "category = asc ''reclamation''" | "category = asc ''ask_human''"
    | "category = asc ''office_plant''"
    by auto
  then show "category \<notin> set [asc ''order_question'', asc ''call_request'']"
    by cases (simp_all only: silent_categories_apart not_False_eq_True)
qed

lemma escalate_after_hours:
  assumes "category \<in> set [asc ''live_photo'', asc ''multiple_plants'', asc ''reclamation'',
             asc ''ask_human'', asc ''office_plant'']"
    and "is_working_hours_and_managers_available w category = (a, b)"
    and "\<not> a" and "\<not> b"
  shows "\<exists>prefix. escalate w ctx category msg =
      (Inr (Some after_hours_message),
       (add_message ctx (asc ''assistant'') (Some after_hours_message))\<lparr>subject := Some prefix\<rparr>,
       [NotifySeller (prefix @ asc '': '' @ msg) False])"
proof -
  from details_prefix_defined [OF replying_category(1) [OF assms(1)]]
  obtain prefix where p: "map_of DETAILS_PREFIX category = Some prefix" ..
  note q = replying_category(2) [OF assms(1)]
  from assms(3,4) have ab: "(\<not> a \<and> \<not> b) = True" by simp
  show ?thesis
  proof (rule exI [of _ prefix])
    show "escalate w ctx category msg =
      (Inr (Some after_hours_message),
       (add_message ctx (asc ''assistant'') (Some after_hours_message))\<lparr>subject := Some prefix\<rparr>,
       [NotifySeller (prefix @ asc '': '' @ msg) False])"
      by (simp only: escalate_def Let_def p q assms(2) ab if_False if_True prod.case option.case simp_thms)
  qed
qed

lemma escalate_in_hours:
  assumes "category \<in> set [asc ''live_photo'', asc ''multiple_plants'', asc ''reclamation'',
             asc ''ask_human'', asc ''office_plant'']"
    and "is_working_hours_and_managers_available w category = (a, b)"
    and "a \<or> b"
  shows "\<exists>prefix reply. map_of CATEGORY_REPLIES category = Some reply \<and>
      escalate w ctx category msg =
      (Inr (Some reply),
       change_state (add_message (ctx\<lparr>subject := Some prefix\<rparr>) (asc ''assistant'') (Some reply))
         MANAGER_CALLED,
       [NotifySeller (prefix @ asc '': '' @ msg) False])"
proof -
  from details_prefix_defined [OF replying_category(1) [OF assms(1)]]
  obtain prefix where p: "map_of DETAILS_PREFIX category = Some prefix" ..
  from category_reply_defined [OF replying_category(1) [OF assms(1)]]
  obtain reply where r: "map_of CATEGORY_REPLIES category = Some reply" ..
  note q = replying_category(2) [OF assms(1)]
  from assms(3) have ab: "(\<not> a \<and> \<not> b) = False" by simp
  have "map_of CATEGORY_REPLIES category = Some reply \<and>
      escalate w ctx category msg =
      (Inr (Some reply),
       change_state (add_message (ctx\<lparr>subject := Some prefix\<rparr>) (asc ''assistant'') (Some reply))
         MANAGER_CALLED,
       [NotifySeller (prefix @ asc '': '' @ msg) False])"
    by (simp only: escalate_def Let_def p q r assms(2) ab if_False if_True prod.case
        option.case simp_thms)
  then show ?thesis by (intro exI [of _ prefix] exI [of _ reply])
qed

lemma first_size_in_range_bounds:
  "first_size_in_range xs = Inr (Some n) \<Longrightarrow> 10 \<le> n \<and> n \<le> 70"
  by (induction xs rule: first_size_in_range.induct) (auto split: if_splits)

lemma extract_pot_size_bounds:
  "extract_pot_size w msg = Inr (Some n) \<Longrightarrow> 10 \<le> n \<and> n \<le> 70"
  unfolding extract_pot_size_def Let_def by (rule first_size_in_range_bounds)

lemma pot_reply_silent:
  "snd (snd (pot_reply w ctx msg)) = []"
  "state (fst (snd (pot_reply w ctx msg))) = state ctx"
  by (auto simp: pot_reply_def add_message_def split: option.splits sum.splits)

lemma closest_key_mem: "closest_key d best xs \<in> set (best # xs)"
  by (induction xs arbitrary: best) auto

lemma generate_pot_link_returns: "\<exists>link. generate_pot_link d = Inr link"
proof -
  obtain k ks where keys: "map fst PLANT_POT_SIZE_MAPPING = k # ks"
    by (simp add: PLANT_POT_SIZE_MAPPING_def)
  have "closest_key d k ks \<in> set (map fst PLANT_POT_SIZE_MAPPING)"
    unfolding keys by (rule closest_key_mem)
  then obtain r where r: "map_of PLANT_POT_SIZE_MAPPING (closest_key d k ks) = Some r"
    by (cases "map_of PLANT_POT_SIZE_MAPPING (closest_key d k ks)")
      (simp_all add: map_of_eq_None_iff)
  show ?thesis
    by (cases "map_of PLANT_POT_SIZE_MAPPING d")
      (auto simp: generate_pot_link_def keys r split: prod.splits)
qed

lemma generate_pot_link_20:
  "generate_pot_link 20 =
     Inr (asc ''https://tropichouse.ru/catalog/gorshki_i_kashpo/filter/diameter-from-21-to-25/apply/'')"
  by (simp add: generate_pot_link_def PLANT_POT_SIZE_MAPPING_def str_nat.simps asc_def)

lemma extract_pot_size_sample: "extract_pot_size (sample_world c) planter_20 = Inr (Some 20)"
  by (simp add: extract_pot_size_def Let_def sample_world_def planter_20_def
      sample_lower_char_def match_number_unit_def is_digit_def sample_decimal_def
      py_isspace_def unit_cm_def digits_value_def)

lemma classify_llm_pot_request:
  "classify_llm (sample_world (asc ''pot_request'')) planter_20 = Inr (asc ''none'')"
  by (simp add: classify_llm_def Let_def sample_world_def strip_def py_isspace_def
      sample_lower_char_def CATEGORY_REPLIES_def asc_def)

section \<open>What a turn does, as the code is written\<close>

lemma sample_world_fields:
  "now (sample_world c) = 73800000000"
  "str_lower (sample_world c) = map sample_lower_char"
  "classifier_reply (sample_world c) t = Inr c"
  "online_managers (sample_world c) g = Inr 0"
  by (simp_all add: sample_world_def)

lemma sample_sessions:
  "\<not> is_expired escalated_context 73800000000 7"
  "\<not> is_expired searching_context 73800000000 7"
  "\<not> is_expired searching_context 43200000000 7"
  "state escalated_context = MANAGER_CALLED"
  "state searching_context = PLANT_SEARCH"
  by (simp_all add: is_expired_def escalated_context_def searching_context_def
      new_ChatContext_def microseconds_per_day_def)

lemma sample_messages_not_start:
  "map sample_lower_char (strip call_me) \<noteq> asc ''/start''"
  "map sample_lower_char (strip plant_wilted) \<noteq> asc ''/start''"
  "map sample_lower_char (strip planter_20) \<noteq> asc ''/start''"
  by (simp_all add: strip_unchanged call_me_def plant_wilted_def planter_20_def
      py_isspace_def sample_lower_char_def asc_def)

lemma review_request_not_start:
  "map sample_lower_char (strip review_request_text) \<noteq> asc ''/start''"
proof -
  have "strip review_request_text = review_request_text"
    by (rule strip_unchanged) (simp_all add: review_request_text_def py_isspace_def)
  moreover have "length (map sample_lower_char review_request_text) \<noteq> length (asc ''/start'')"
    by (simp add: review_request_text_def asc_def)
  ultimately show ?thesis by (metis length_map)
qed

lemma sample_messages_not_empty:
  "call_me \<noteq> []" "plant_wilted \<noteq> []" "planter_20 \<noteq> []" "review_request_text \<noteq> []"
  by (simp_all add: call_me_def plant_wilted_def planter_20_def review_request_text_def)



lemma after_hours_nobody_online:
  "is_working_hours_and_managers_available (sample_world c) category = (False, False)"
  by (simp add: is_working_hours_and_managers_available_def Let_def current_hour_def
      sample_world_def)

lemma apology_is_no_reply:
  "processing_error_apology \<noteq> after_hours_message"
  "processing_error_apology \<noteq> reply_reclamation"
  "processing_error_apology \<noteq> []"
  by (simp_all add: processing_error_apology_def after_hours_message_def reply_reclamation_def)

text \<open>
  Claim C1 on the code. A session is in \<open>MANAGER_CALLED\<close> and the customer writes a
  message that is not \<open>/start\<close>. The claim says nothing is sent. In the code the first
  statement of \<open>run_unified_agent\<close> raises \<open>NameError\<close>, the check of the state is not
  reached, and \<open>handle_client_message\<close> sends its apology; the session stays as it was.
\<close>

theorem escalated_session_message_answered:
  "snd (handle_client_message (sample_world (asc ''none''))
          (Map.empty(7 \<mapsto> escalated_context)) 7 plant_wilted)
     = [SendMessage 7 processing_error_apology]
   \<and> fst (handle_client_message (sample_world (asc ''none''))
          (Map.empty(7 \<mapsto> escalated_context)) 7 plant_wilted) 7
     = Some escalated_context
   \<and> state escalated_context = MANAGER_CALLED"
proof -
  have kept: "fst (handle_client_message (sample_world (asc ''none''))
          (Map.empty(7 \<mapsto> escalated_context)) 7 plant_wilted) 7 = Some escalated_context"
    by (rule handle_client_message_keeps_session)
      (simp_all add: sample_world_fields sample_sessions sample_messages_not_start)
  show ?thesis
    using handle_client_message_sends_apology [OF sample_messages_not_empty(2)] kept
    by (simp add: sample_sessions)
qed

text \<open>
  Claim C5 on the code. The classifier answers \<open>call_request\<close> for the message "call me".
  The claim says the staff is notified, the session moves to \<open>MANAGER_CALLED\<close> and
  nothing is sent. In the code the turn raises \<open>NameError\<close> at its first statement:
  the only thing sent out is the apology to the customer, nobody is notified, and the
  session stays in \<open>PLANT_SEARCH\<close>.
\<close>

theorem call_request_answered_with_apology:
  "classifier_reply (sample_world (asc ''call_request'')) call_me = Inr (asc ''call_request'')
   \<and> snd (handle_client_message (sample_world (asc ''call_request''))
          (Map.empty(7 \<mapsto> searching_context)) 7 call_me)
     = [SendMessage 7 processing_error_apology]
   \<and> fst (handle_client_message (sample_world (asc ''call_request''))
          (Map.empty(7 \<mapsto> searching_context)) 7 call_me) 7
     = Some searching_context
   \<and> state searching_context = PLANT_SEARCH"
proof -
  have kept: "fst (handle_client_message (sample_world (asc ''call_request''))
          (Map.empty(7 \<mapsto> searching_context)) 7 call_me) 7 = Some searching_context"
    by (rule handle_client_message_keeps_session)
      (simp_all add: sample_world_fields sample_sessions sample_messages_not_start)
  show ?thesis
    using handle_client_message_sends_apology [OF sample_messages_not_empty(1)] kept
    by (simp add: sample_sessions sample_world_fields)
qed

text \<open>
  Claim C6 on the code. The classifier answers \<open>reclamation\<close>, it is 20:30 and nobody is
  online. The claim says the after-hours reply is sent and the staff is notified. In the
  code the turn raises \<open>NameError\<close> at its first statement: the only thing sent out is
  the apology, which is not the after-hours reply, and nobody is notified. At noon the
  same happens, where the claim says the canned reply is sent, the staff is notified and
  the session moves to \<open>MANAGER_CALLED\<close>.
\<close>

theorem reclamation_answered_with_apology:
  "is_working_hours_and_managers_available (sample_world (asc ''reclamation''))
       (asc ''reclamation'') = (False, False)
   \<and> snd (handle_client_message (sample_world (asc ''reclamation''))
          (Map.empty(7 \<mapsto> searching_context)) 7 plant_wilted)
     = [SendMessage 7 processing_error_apology]
   \<and> processing_error_apology \<noteq> after_hours_message
   \<and> snd (handle_client_message ((sample_world (asc ''reclamation''))\<lparr>now := 43200000000\<rparr>)
          (Map.empty(7 \<mapsto> searching_context)) 7 plant_wilted)
     = [SendMessage 7 processing_error_apology]
   \<and> processing_error_apology \<noteq> reply_reclamation
   \<and> fst (handle_client_message ((sample_world (asc ''reclamation''))\<lparr>now := 43200000000\<rparr>)
          (Map.empty(7 \<mapsto> searching_context)) 7 plant_wilted) 7
     = Some searching_context
   \<and> state searching_context = PLANT_SEARCH"
proof -
  have kept: "fst (handle_client_message ((sample_world (asc ''reclamation''))\<lparr>now := 43200000000\<rparr>)
          (Map.empty(7 \<mapsto> searching_context)) 7 plant_wilted) 7 = Some searching_context"
    by (rule handle_client_message_keeps_session)
      (simp_all add: sample_world_fields sample_sessions sample_messages_not_start)
  show ?thesis
    using handle_client_message_sends_apology [OF sample_messages_not_empty(2)] kept
    by (simp add: sample_sessions after_hours_nobody_online apology_is_no_reply)
qed

text \<open>
  Claim C7 on the code. The customer's chat delivers the review request, character for
  character. The claim says the turn sends nothing. In the code the first statement of
  \<open>run_unified_agent\<close> raises \<open>NameError\<close> before \<open>classify_intent\<close> is called, and the
  apology is sent; \<open>classify_intent\<close> itself would return \<open>"review_ignore"\<close> for the
  text.
\<close>

theorem review_request_answered_with_apology:
  "classify_intent (sample_world (asc ''none'')) searching_context review_request_text
     = Inr (asc ''review_ignore'')
   \<and> snd (handle_client_message (sample_world (asc ''none''))
          (Map.empty(7 \<mapsto> searching_context)) 7 review_request_text)
     = [SendMessage 7 processing_error_apology]
   \<and> processing_error_apology \<noteq> []"
proof -
  have "classify_intent (sample_world (asc ''none'')) searching_context review_request_text
      = Inr (asc ''review_ignore'')"
    by (simp add: classify_intent_def review_check_def)
  then show ?thesis
    using handle_client_message_sends_apology [OF sample_messages_not_empty(4)]
    by (simp add: apology_is_no_reply)
qed

text \<open>
  Claim C8 on the code. The classifier answers \<open>pot_request\<close> for "a planter of 20 cm",
  in which the patterns find the diameter 20. The claim says the reply is the link to
  planters of that size. In the code the turn raises \<open>NameError\<close> at its first
  statement and the apology is sent; and \<open>classify_intent\<close> has no \<open>pot_request\<close> among
  the keys it lets through, so the classifier's answer would become \<open>"none"\<close>.
\<close>

theorem pot_request_answered_with_apology:
  "classifier_reply (sample_world (asc ''pot_request'')) planter_20 = Inr (asc ''pot_request'')
   \<and> extract_pot_size (sample_world (asc ''pot_request'')) planter_20 = Inr (Some 20)
   \<and> classify_llm (sample_world (asc ''pot_request'')) planter_20 = Inr (asc ''none'')
   \<and> snd (handle_client_message (sample_world (asc ''pot_request''))
          (Map.empty(7 \<mapsto> searching_context)) 7 planter_20)
     = [SendMessage 7 processing_error_apology]"
  using handle_client_message_sends_apology [OF sample_messages_not_empty(3)]
    extract_pot_size_sample classify_llm_pot_request
  by (simp add: sample_world_fields)


end
